theory Spec2Isabelle
  imports Main
begin

section \<open>The Markdown blog post builder of \<^verbatim>\<open>builder/builder.py\<close>\<close>

text \<open>
  The class \<^verbatim>\<open>MarkdownBlogPostBuilder\<close> keeps one attribute, the list \<^verbatim>\<open>self.lines\<close> of
  the fragments added so far. Python strings are modelled as \<open>string\<close>, the list as a
  \<open>string list\<close>, and every method as a function from the state of the object before the
  call to the pair of the value returned and the state after the call. A method without a
  \<^verbatim>\<open>return\<close> statement returns \<^verbatim>\<open>None\<close>, modelled as the one value of type \<open>unit\<close>.
  No method of the class raises on a string (or, for \<^verbatim>\<open>add_list\<close>, a list of strings), so
  the model has no error value.
\<close>

subsection \<open>State\<close>

record builder =
  lines :: "string list"

text \<open>\<^verbatim>\<open>__init__\<close>: \<^verbatim>\<open>self.lines = []\<close>.\<close>

definition MarkdownBlogPostBuilder :: builder where
  "MarkdownBlogPostBuilder = \<lparr>lines = []\<rparr>"

subsection \<open>String operations of the Python runtime\<close>

text \<open>The one-character string \<^verbatim>\<open>"\n"\<close>.\<close>

definition NL :: string where
  "NL = ''\<newline>''"

text \<open>
  \<^verbatim>\<open>sep.join(xs)\<close>: the elements of \<open>xs\<close> with \<open>sep\<close> between each two neighbours; nothing
  before the first or after the last, and the empty string for the empty list.
\<close>

fun join :: "string \<Rightarrow> string list \<Rightarrow> string" where
  "join sep [] = []"
| "join sep [x] = x"
| "join sep (x # y # ys) = x @ sep @ join sep (y # ys)"

subsection \<open>The methods\<close>

text \<open>\<^verbatim>\<open>self.lines.append(f"# {text}")\<close>\<close>

definition add_title :: "string \<Rightarrow> builder \<Rightarrow> unit \<times> builder" where
  "add_title text b = ((), b\<lparr>lines := lines b @ [''# '' @ text]\<rparr>)"

text \<open>\<^verbatim>\<open>self.lines.append(f"## {text}")\<close>\<close>

definition add_header :: "string \<Rightarrow> builder \<Rightarrow> unit \<times> builder" where
  "add_header text b = ((), b\<lparr>lines := lines b @ [''## '' @ text]\<rparr>)"

text \<open>\<^verbatim>\<open>self.lines.append(f"{text}\n")\<close>\<close>

definition add_paragraph :: "string \<Rightarrow> builder \<Rightarrow> unit \<times> builder" where
  "add_paragraph text b = ((), b\<lparr>lines := lines b @ [text @ NL]\<rparr>)"

text \<open>
  The loop of \<^verbatim>\<open>add_list\<close>, with the accumulator \<^verbatim>\<open>list_text\<close> as an argument:
  \<^verbatim>\<open>for point in list_of_points: list_text += f"* {point}\n"\<close>
\<close>

fun add_list_loop :: "string \<Rightarrow> string list \<Rightarrow> string" where
  "add_list_loop list_text [] = list_text"
| "add_list_loop list_text (point # list_of_points) =
     add_list_loop (list_text @ ''* '' @ point @ NL) list_of_points"

text \<open>\<^verbatim>\<open>list_text = ""\<close>, the loop, then \<^verbatim>\<open>self.lines.append(list_text)\<close>.\<close>

definition add_list :: "string list \<Rightarrow> builder \<Rightarrow> unit \<times> builder" where
  "add_list list_of_points b =
     ((), b\<lparr>lines := lines b @ [add_list_loop [] list_of_points]\<rparr>)"

text \<open>\<^verbatim>\<open>return "\n".join(self.lines)\<close>; the object is only read.\<close>

definition build :: "builder \<Rightarrow> string \<times> builder" where
  "build b = (join NL (lines b), b)"

subsection \<open>Sequences of calls\<close>

text \<open>
  A client, such as the script at the end of the module, makes one call after the other on
  the same object. A call is a value of \<open>call\<close>, \<open>perform\<close> gives the state after one call
  (the returned value dropped) and \<open>run\<close> the state after a list of calls, first to last.
\<close>

datatype call =
    AddTitle string
  | AddHeader string
  | AddParagraph string
  | AddList "string list"
  | Build

fun perform :: "call \<Rightarrow> builder \<Rightarrow> builder" where
  "perform (AddTitle text) b = snd (add_title text b)"
| "perform (AddHeader text) b = snd (add_header text b)"
| "perform (AddParagraph text) b = snd (add_paragraph text b)"
| "perform (AddList list_of_points) b = snd (add_list list_of_points b)"
| "perform Build b = snd (build b)"

fun run :: "call list \<Rightarrow> builder \<Rightarrow> builder" where
  "run [] b = b"
| "run (c # cs) b = run cs (perform c b)"

subsection \<open>Vocabulary for the properties\<close>

text \<open>
  The fragments a call is expected to contribute to the document: one for each
  \<^verbatim>\<open>add_*\<close> call, none for \<^verbatim>\<open>build\<close>. A list item is rendered as a bullet marker, the item
  and a newline.
\<close>

fun fragments :: "call \<Rightarrow> string list" where
  "fragments (AddTitle text) = [''# '' @ text]"
| "fragments (AddHeader text) = [''## '' @ text]"
| "fragments (AddParagraph text) = [text @ NL]"
| "fragments (AddList list_of_points) =
     [concat (map (\<lambda>point. ''* '' @ point @ NL) list_of_points)]"
| "fragments Build = []"

text \<open>
  The lines of a text as \<^verbatim>\<open>s.split("\n")\<close> gives them: the pieces between the newline
  characters. A text that ends with a newline has the empty string as its last piece.
\<close>

fun split_lines :: "string \<Rightarrow> string list" where
  "split_lines [] = [[]]"
| "split_lines (c # cs) =
     (if [c] = NL then [] # split_lines cs
      else (case split_lines cs of [] \<Rightarrow> [[c]] | l # ls \<Rightarrow> (c # l) # ls))"

text \<open>\<^verbatim>\<open>s.endswith("\n")\<close>\<close>

definition ends_with_newline :: "string \<Rightarrow> bool" where
  "ends_with_newline s = (case rev s of [] \<Rightarrow> False | c # _ \<Rightarrow> [c] = NL)"

text \<open>
  The position in a rendered document at which the fragment of index \<open>k\<close> is expected to
  start: behind the \<open>k\<close> fragments before it and the newline after each of them.
\<close>

definition fragment_offset :: "string list \<Rightarrow> nat \<Rightarrow> nat" where
  "fragment_offset fs k = sum_list (map (\<lambda>f. length f + length NL) (take k fs))"

section \<open>Properties\<close>

subsection \<open>Joining\<close>

lemma join_Cons: "join sep (x # xs) = x @ concat (map (\<lambda>y. sep @ y) xs)"
  by (induction xs arbitrary: x) simp_all

lemma join_snoc:
  "join sep (xs @ [x]) = (if xs = [] then x else join sep xs @ sep @ x)"
proof (cases xs)
  case Nil
  then show ?thesis by simp
next
  case (Cons y ys)
  then show ?thesis by (simp add: join_Cons)
qed

lemma join_append:
  "join sep (xs @ ys) =
     (if xs = [] then join sep ys else join sep xs @ concat (map (\<lambda>y. sep @ y) ys))"
proof (cases xs)
  case Nil
  then show ?thesis by simp
next
  case (Cons z zs)
  then show ?thesis by (simp add: join_Cons)
qed

subsection \<open>The loop of \<^verbatim>\<open>add_list\<close>\<close>

lemma add_list_loop_concat:
  "add_list_loop acc ps = acc @ concat (map (\<lambda>point. ''* '' @ point @ NL) ps)"
  by (induction ps arbitrary: acc) simp_all

subsection \<open>What a call does to the state\<close>

lemma lines_perform: "lines (perform c b) = lines b @ fragments c"
  by (cases c) (simp_all add: add_title_def add_header_def add_paragraph_def add_list_def
      build_def add_list_loop_concat)

lemma lines_run: "lines (run cs b) = lines b @ concat (map fragments cs)"
  by (induction cs arbitrary: b) (simp_all add: lines_perform)

lemma build_then_perform:
  "fragments c = [f] \<Longrightarrow> lines b \<noteq> [] \<Longrightarrow>
     fst (build (perform c b)) = fst (build b) @ NL @ f"
  by (simp add: build_def lines_perform join_snoc)

lemmas method_defs = add_title_def add_header_def add_paragraph_def add_list_def build_def

lemmas scenario_defs = method_defs MarkdownBlogPostBuilder_def NL_def

subsection \<open>Lines and trailing newlines\<close>

lemma ends_with_newline_append:
  "ends_with_newline (xs @ ys) =
     (if ys = [] then ends_with_newline xs else ends_with_newline ys)"
  by (cases ys rule: rev_cases) (simp_all add: ends_with_newline_def)

lemma ends_with_newline_NL: "ends_with_newline NL"
  by (simp add: ends_with_newline_def NL_def)

lemma not_ends_with_newline_Nil: "\<not> ends_with_newline []"
  by (simp add: ends_with_newline_def)

lemma ends_with_newline_Cons:
  "ends_with_newline (c # s) = (if s = [] then [c] = NL else ends_with_newline s)"
  using ends_with_newline_append [of "[c]" s] by (simp add: ends_with_newline_def)

lemma ends_with_newline_join_snoc:
  "x \<noteq> [] \<Longrightarrow> ends_with_newline (join NL (xs @ [x])) = ends_with_newline x"
  by (simp add: join_snoc ends_with_newline_append)

lemma bullets_end:
  "ps \<noteq> [] \<Longrightarrow>
     concat (map (\<lambda>point. ''* '' @ point @ NL) ps) \<noteq> [] \<and>
     ends_with_newline (concat (map (\<lambda>point. ''* '' @ point @ NL) ps))"
  by (cases ps rule: rev_cases)
    (simp_all add: ends_with_newline_append ends_with_newline_Cons NL_def)

lemma split_lines_line:
  "\<forall>c \<in> set l. [c] \<noteq> NL \<Longrightarrow> split_lines (l @ NL @ rest) = l # split_lines rest"
  by (induction l) (simp_all add: NL_def)

lemma split_lines_bullets:
  "\<forall>p \<in> set ps. \<forall>c \<in> set p. [c] \<noteq> NL \<Longrightarrow>
   split_lines (concat (map (\<lambda>point. ''* '' @ point @ NL) ps) @ rest) =
     map (\<lambda>point. ''* '' @ point) ps @ split_lines rest"
proof (induction ps)
  case Nil
  then show ?case by simp
next
  case (Cons p ps)
  have "\<forall>c \<in> set (''* '' @ p). [c] \<noteq> NL"
    using Cons.prems by (auto simp: NL_def)
  then have "split_lines ((''* '' @ p) @ NL @
        concat (map (\<lambda>point. ''* '' @ point @ NL) ps) @ rest) =
      (''* '' @ p) # split_lines (concat (map (\<lambda>point. ''* '' @ point @ NL) ps) @ rest)"
    by (rule split_lines_line)
  with Cons show ?case by simp
qed

lemma join_cases:
  "join sep xs =
     (case xs of [] \<Rightarrow> [] | x # ys \<Rightarrow> x @ concat (map (\<lambda>y. sep @ y) ys))"
  by (cases xs) (simp_all add: join_Cons)

subsection \<open>Where a fragment stands in the joined text\<close>

lemma drop_join:
  "k < length fs \<Longrightarrow> drop (fragment_offset fs k) (join NL fs) = join NL (drop k fs)"
proof (induction fs arbitrary: k)
  case Nil
  then show ?case by simp
next
  case (Cons f fs)
  show ?case
  proof (cases k)
    case 0
    then show ?thesis by (simp add: fragment_offset_def)
  next
    case (Suc j)
    with Cons.prems have j: "j < length fs" by simp
    then obtain g gs where fs: "fs = g # gs" by (cases fs) auto
    have "drop (fragment_offset (f # fs) (Suc j)) (join NL (f # fs)) =
        drop (fragment_offset fs j) (join NL fs)"
      by (simp add: fs fragment_offset_def)
    with Cons.IH [OF j] Suc show ?thesis by simp
  qed
qed

lemma fragment_at_offset:
  assumes "k < length fs"
  shows "take (length (fs ! k)) (drop (fragment_offset fs k) (join NL fs)) = fs ! k"
proof -
  have "drop (fragment_offset fs k) (join NL fs) = join NL (drop k fs)"
    using assms by (simp add: drop_join)
  also have "drop k fs = fs ! k # drop (Suc k) fs"
    using assms by (simp add: Cons_nth_drop_Suc)
  finally show ?thesis by (simp add: join_Cons)
qed

section \<open>The claims\<close>

subsection \<open>A fresh builder\<close>

text \<open>
  Claim C9. \<^verbatim>\<open>build()\<close> on a builder that has just been created, before any
  \<^verbatim>\<open>add_*\<close> call, returns the empty string.
\<close>

theorem build_fresh_builder:
  "fst (build MarkdownBlogPostBuilder) = ''''"
  by (simp add: build_def MarkdownBlogPostBuilder_def)

subsection \<open>\<^verbatim>\<open>build\<close> only reads\<close>

text \<open>
  Claim C4. In every state of the builder, \<^verbatim>\<open>build()\<close> leaves the state as it found it,
  and a second \<^verbatim>\<open>build()\<close> directly after the first returns the same string.
\<close>

theorem build_idempotent:
  "snd (build b) = b \<and> fst (build (snd (build b))) = fst (build b)"
  by (simp add: build_def)

subsection \<open>Headings\<close>

text \<open>
  Claim C7. For every text, \<^verbatim>\<open>add_title(text)\<close> returns no value and appends one fragment,
  the text after a single heading marker and a space; \<^verbatim>\<open>add_header(text)\<close> appends one
  fragment, the text after a double heading marker and a space. On a fresh builder the
  fragment is the whole rendered document.
\<close>

theorem add_title_add_header_fragments:
  "fst (add_title text b) = () \<and>
   lines (snd (add_title text b)) = lines b @ [''# '' @ text] \<and>
   fst (build (snd (add_title text MarkdownBlogPostBuilder))) = ''# '' @ text \<and>
   lines (snd (add_header text b)) = lines b @ [''## '' @ text] \<and>
   fst (build (snd (add_header text MarkdownBlogPostBuilder))) = ''## '' @ text"
  by (simp add: add_title_def add_header_def build_def MarkdownBlogPostBuilder_def)

subsection \<open>The empty list\<close>

text \<open>
  Claim C8. \<^verbatim>\<open>add_list([])\<close> is accepted: it appends one fragment, the empty string, to
  whatever the builder holds, and on a fresh builder the document built afterwards is the
  empty string, which has no bullet line.
\<close>

theorem add_list_empty_accepted:
  "add_list [] MarkdownBlogPostBuilder = ((), \<lparr>lines = ['''']\<rparr>) \<and>
   fst (build (snd (add_list [] MarkdownBlogPostBuilder))) = '''' \<and>
   lines (snd (add_list [] b)) = lines b @ ['''']"
  by (simp add: add_list_def build_def MarkdownBlogPostBuilder_def)

subsection \<open>Order of the fragments\<close>

text \<open>
  Claim C3. Whatever calls are made, in whatever state: the fragments the builder held
  before are still there afterwards, at the same positions and in the same order, and the
  fragments of the calls follow them in the order of the calls (a \<^verbatim>\<open>build()\<close> among the
  calls adds and removes nothing). The document built afterwards is, written out, the
  first of all these fragments followed by every later one behind a newline, earlier
  fragments before the calls' fragments and these in the order of the calls. So the
  fragment of index \<open>k\<close>, counted over the earlier fragments and then the calls, stands in
  the document behind the \<open>k\<close> fragments before it and their newlines, whole and unchanged.
\<close>

theorem fragment_order_kept:
  "lines (run cs b) = lines b @ concat (map fragments cs) \<and>
   take (length (lines b)) (lines (run cs b)) = lines b \<and>
   fst (build (run cs b)) =
     (case lines b @ concat (map fragments cs) of
        [] \<Rightarrow> ''''
      | f # fs \<Rightarrow> f @ concat (map (\<lambda>g. NL @ g) fs)) \<and>
   (k < length (lines b @ concat (map fragments cs)) \<longrightarrow>
      take (length ((lines b @ concat (map fragments cs)) ! k))
        (drop (fragment_offset (lines b @ concat (map fragments cs)) k)
           (fst (build (run cs b)))) =
        (lines b @ concat (map fragments cs)) ! k)"
proof -
  have state: "lines (run cs b) = lines b @ concat (map fragments cs)"
    by (rule lines_run)
  have out: "fst (build (run cs b)) = join NL (lines b @ concat (map fragments cs))"
    by (simp add: build_def state)
  have explicit: "fst (build (run cs b)) =
     (case lines b @ concat (map fragments cs) of
        [] \<Rightarrow> ''''
      | f # fs \<Rightarrow> f @ concat (map (\<lambda>g. NL @ g) fs))"
    unfolding out by (rule join_cases)
  have place: "take (length ((lines b @ concat (map fragments cs)) ! k))
        (drop (fragment_offset (lines b @ concat (map fragments cs)) k)
           (fst (build (run cs b)))) =
        (lines b @ concat (map fragments cs)) ! k"
    if "k < length (lines b @ concat (map fragments cs))"
    unfolding out using that by (rule fragment_at_offset)
  show ?thesis
    using state explicit place by simp
qed

text \<open>
  An instance: a builder that holds the title \<^verbatim>\<open>T\<close>, then the calls
  \<^verbatim>\<open>add_paragraph("P")\<close>, \<^verbatim>\<open>build()\<close> and \<^verbatim>\<open>add_header("H")\<close>. The header has index 2 and
  stands at position 7 of the document.
\<close>

theorem fragment_order_kept_witness:
  "(2::nat) < length (lines (snd (add_title ''T'' MarkdownBlogPostBuilder)) @
      concat (map fragments [AddParagraph ''P'', Build, AddHeader ''H''])) \<and>
   lines (run [AddParagraph ''P'', Build, AddHeader ''H'']
      (snd (add_title ''T'' MarkdownBlogPostBuilder))) =
     [''# T'', ''P\<newline>'', ''## H''] \<and>
   fst (build (run [AddParagraph ''P'', Build, AddHeader ''H'']
      (snd (add_title ''T'' MarkdownBlogPostBuilder)))) =
     ''# T\<newline>P\<newline>\<newline>## H'' \<and>
   fragment_offset [''# T'', ''P\<newline>'', ''## H''] 2 = 7 \<and>
   take 4 (drop 7 (fst (build (run [AddParagraph ''P'', Build, AddHeader ''H'']
      (snd (add_title ''T'' MarkdownBlogPostBuilder)))))) = ''## H''"
  using fragment_order_kept [of "[AddParagraph ''P'', Build, AddHeader ''H'']"
      "snd (add_title ''T'' MarkdownBlogPostBuilder)" 2]
  by (simp add: scenario_defs fragment_offset_def)

subsection \<open>The separator of \<^verbatim>\<open>build\<close>\<close>

text \<open>
  Claim C2 says that \<^verbatim>\<open>build()\<close> joins consecutive fragments by a blank line. It does
  not: after \<^verbatim>\<open>add_title("T")\<close> and \<^verbatim>\<open>add_header("H")\<close> the document is not the two
  fragments with an empty line between them, and none of its lines is empty.
\<close>

theorem build_blank_line_separator_counterexample:
  "fst (build (run [AddTitle ''T'', AddHeader ''H''] MarkdownBlogPostBuilder)) \<noteq>
     join (NL @ NL) (concat (map fragments [AddTitle ''T'', AddHeader ''H''])) \<and>
   '''' \<notin> set (split_lines (fst (build (run [AddTitle ''T'', AddHeader ''H'']
        MarkdownBlogPostBuilder))))"
  by (simp add: scenario_defs)

text \<open>
  Claim C2, amended. For every sequence of calls on a fresh builder, \<^verbatim>\<open>build()\<close> returns
  the fragments of the calls, in the order of the calls, with exactly one newline character
  between each two consecutive fragments: the first fragment, then every later fragment
  after a newline; the empty string when there is no fragment.
\<close>

theorem build_joins_by_newline:
  "fst (build (run cs MarkdownBlogPostBuilder)) =
     (case concat (map fragments cs) of
        [] \<Rightarrow> ''''
      | f # fs \<Rightarrow> f @ concat (map (\<lambda>g. NL @ g) fs))"
  by (simp add: build_def lines_run MarkdownBlogPostBuilder_def join_cases)

subsection \<open>The scenario of a title, a paragraph and a list\<close>

text \<open>
  Claim C1 says that after \<^verbatim>\<open>add_title("T")\<close>, \<^verbatim>\<open>add_paragraph("P")\<close> and
  \<^verbatim>\<open>add_list(["a","b"])\<close> the line \<^verbatim>\<open># T\<close> of the document is followed by a blank line.
  It is not: the document does not start with the line \<^verbatim>\<open># T\<close> and an empty line.
\<close>

theorem scenario_blank_after_title_counterexample:
  "\<not> (\<exists>rest. split_lines (fst (build (run
        [AddTitle ''T'', AddParagraph ''P'', AddList [''a'', ''b'']]
        MarkdownBlogPostBuilder))) = ''# T'' # '''' # rest)"
  by (simp add: scenario_defs)

text \<open>
  Claim C1, amended. After the three calls on a fresh builder, \<^verbatim>\<open>build()\<close> returns the
  string \<^verbatim>\<open>"# T\nP\n\n* a\n* b\n"\<close>. Its lines are, in order, \<^verbatim>\<open># T\<close>, directly followed
  by \<^verbatim>\<open>P\<close>, then a blank line, then \<^verbatim>\<open>* a\<close> and \<^verbatim>\<open>* b\<close>; the text ends with the newline
  after \<^verbatim>\<open>* b\<close>, so that splitting at the newlines leaves an empty last piece.
\<close>

theorem scenario_output:
  "fst (build (run [AddTitle ''T'', AddParagraph ''P'', AddList [''a'', ''b'']]
        MarkdownBlogPostBuilder)) =
     ''# T\<newline>P\<newline>\<newline>* a\<newline>* b\<newline>'' \<and>
   split_lines (fst (build (run [AddTitle ''T'', AddParagraph ''P'', AddList [''a'', ''b'']]
        MarkdownBlogPostBuilder))) =
     [''# T'', ''P'', '''', ''* a'', ''* b'', '''']"
  by (simp add: scenario_defs)

subsection \<open>Paragraphs\<close>

text \<open>
  Claim C5. For every text and in every state, \<^verbatim>\<open>add_paragraph(text)\<close> returns no value
  and appends exactly one fragment, the text followed by a newline. When a call that
  contributes a fragment \<open>f\<close> comes next, the document built afterwards is the document
  before the paragraph (with its separator, if the builder held a fragment), the text, two
  newlines and \<open>f\<close>: a blank line stands between the paragraph and the next fragment.
\<close>

theorem add_paragraph_fragment:
  "fst (add_paragraph text b) = () \<and>
   lines (snd (add_paragraph text b)) = lines b @ [text @ NL] \<and>
   (fragments c = [f] \<longrightarrow>
      fst (build (perform c (snd (add_paragraph text b)))) =
        (if lines b = [] then '''' else fst (build b) @ NL) @ text @ NL @ NL @ f)"
  by (simp add: add_paragraph_def build_def lines_perform join_append)

text \<open>
  An instance: a paragraph \<^verbatim>\<open>P\<close> after the title \<^verbatim>\<open>T\<close>, followed by the header \<^verbatim>\<open>H\<close>.
\<close>

theorem add_paragraph_fragment_witness:
  "fragments (AddHeader ''H'') = [''## H''] \<and>
   lines (snd (add_paragraph ''P'' (snd (add_title ''T'' MarkdownBlogPostBuilder)))) =
     [''# T'', ''P\<newline>''] \<and>
   fst (build (perform (AddHeader ''H'')
     (snd (add_paragraph ''P'' (snd (add_title ''T'' MarkdownBlogPostBuilder)))))) =
     ''# T\<newline>P\<newline>\<newline>## H''"
  using add_paragraph_fragment [of "''P''" "snd (add_title ''T'' MarkdownBlogPostBuilder)"
      "AddHeader ''H''" "''## H''"]
  by (simp add: add_title_def build_def MarkdownBlogPostBuilder_def NL_def)

subsection \<open>Lists\<close>

text \<open>
  Claim C6 says that for every list of items the fragment has one rendered line for each
  item, each line the item behind a bullet marker. An item is copied as it is, newlines
  included: the single item \<^verbatim>\<open>"a\nb"\<close> gives the fragment \<^verbatim>\<open>"* a\nb\n"\<close>, which has two
  lines for the one item, the second without a bullet marker.
\<close>

theorem add_list_item_newline_counterexample:
  "split_lines (last (lines (snd (add_list [''a\<newline>b''] MarkdownBlogPostBuilder)))) =
     [''* a'', ''b'', ''''] \<and>
   split_lines (last (lines (snd (add_list [''a\<newline>b''] MarkdownBlogPostBuilder)))) \<noteq>
     map (\<lambda>point. ''* '' @ point) [''a\<newline>b''] @ ['''']"
  by (simp add: scenario_defs)

text \<open>
  Claim C6, amended. For every list of items and in every state, \<^verbatim>\<open>add_list(items)\<close>
  returns no value and appends exactly one fragment: for each item, in order, the bullet
  marker, a space, the item and a newline. When no item contains a newline, the lines of the
  fragment are the bulleted items, one line for each, and the newline after the last of them
  leaves an empty last piece. When the list has a last item and a call that contributes a fragment
  \<open>f\<close> comes next, the document built afterwards has two newlines between the last item and
  \<open>f\<close>: a blank line follows the last item.
\<close>

theorem add_list_fragment:
  "fst (add_list list_of_points b) = () \<and>
   lines (snd (add_list list_of_points b)) =
     lines b @ [concat (map (\<lambda>point. ''* '' @ point @ NL) list_of_points)] \<and>
   ((\<forall>point \<in> set list_of_points. \<forall>c \<in> set point. [c] \<noteq> NL) \<longrightarrow>
      split_lines (last (lines (snd (add_list list_of_points b)))) =
        map (\<lambda>point. ''* '' @ point) list_of_points @ ['''']) \<and>
   (fragments next_call = [f] \<longrightarrow>
      fst (build (perform next_call (snd (add_list (list_of_points @ [last_point]) b)))) =
        (if lines b = [] then '''' else fst (build b) @ NL) @
        concat (map (\<lambda>point. ''* '' @ point @ NL) list_of_points) @
        ''* '' @ last_point @ NL @ NL @ f)"
proof -
  have one: "lines (snd (add_list ps b)) =
      lines b @ [concat (map (\<lambda>point. ''* '' @ point @ NL) ps)]" for ps
    by (simp add: add_list_def add_list_loop_concat)
  have two: "split_lines (last (lines (snd (add_list list_of_points b)))) =
        map (\<lambda>point. ''* '' @ point) list_of_points @ ['''']"
    if "\<forall>point \<in> set list_of_points. \<forall>c \<in> set point. [c] \<noteq> NL"
    using split_lines_bullets [OF that, of "[]"] by (simp add: one)
  have three: "fst (build (perform next_call
          (snd (add_list (list_of_points @ [last_point]) b)))) =
        (if lines b = [] then '''' else fst (build b) @ NL) @
        concat (map (\<lambda>point. ''* '' @ point @ NL) list_of_points) @
        ''* '' @ last_point @ NL @ NL @ f"
    if "fragments next_call = [f]"
    using that by (simp add: build_def lines_perform one join_append)
  show ?thesis
    using one two three by simp
qed

text \<open>
  An instance: the list of \<^verbatim>\<open>a\<close> and \<^verbatim>\<open>b\<close> for the lines, and the list of \<^verbatim>\<open>a\<close>, \<^verbatim>\<open>b\<close>
  and \<^verbatim>\<open>c\<close> followed by the title \<^verbatim>\<open>T\<close> for the blank line.
\<close>

theorem add_list_fragment_witness:
  "list_all (list_all (\<lambda>c. [c] \<noteq> NL)) [''a'', ''b''] \<and>
   fragments (AddTitle ''T'') = [''# T''] \<and>
   lines (snd (add_list [''a'', ''b''] MarkdownBlogPostBuilder)) =
     [''* a\<newline>* b\<newline>''] \<and>
   split_lines (last (lines (snd (add_list [''a'', ''b''] MarkdownBlogPostBuilder)))) =
     [''* a'', ''* b'', ''''] \<and>
   fst (build (perform (AddTitle ''T'')
     (snd (add_list [''a'', ''b'', ''c''] MarkdownBlogPostBuilder)))) =
     ''* a\<newline>* b\<newline>* c\<newline>\<newline># T''"
  using add_list_fragment [of "[''a'', ''b'']" MarkdownBlogPostBuilder "AddTitle ''T''"
      "''# T''" "''c''"]
  by (simp add: MarkdownBlogPostBuilder_def NL_def)

subsection \<open>Which fragments end with a newline\<close>

text \<open>
  Claim C10 says that for every text the fragment stored by \<^verbatim>\<open>add_title\<close> does not end
  with a newline, so that no blank line follows it. The text is copied as it is: for the
  text \<^verbatim>\<open>"T\n"\<close> the stored fragment ends with a newline, and a blank line stands between
  the title and the header added next.
\<close>

theorem heading_text_newline_counterexample:
  "ends_with_newline (last (lines (snd (add_title ''T\<newline>'' MarkdownBlogPostBuilder)))) \<and>
   fst (build (perform (AddHeader ''H'')
     (snd (add_title ''T\<newline>'' MarkdownBlogPostBuilder)))) =
     ''# T\<newline>\<newline>## H''"
  by (simp add: scenario_defs ends_with_newline_def)

text \<open>
  Claim C10, amended. For every text that does not itself end with a newline, the fragments
  stored by \<^verbatim>\<open>add_title\<close> and \<^verbatim>\<open>add_header\<close> do not end with a newline, and neither does
  the document built right after them. For every text, the fragment stored by
  \<^verbatim>\<open>add_paragraph\<close> ends with a newline, and so does the fragment stored by \<^verbatim>\<open>add_list\<close>
  for a list that is not empty; the document built right after them ends with a newline
  too. In each of the four cases, when a call that contributes a fragment \<open>f\<close> comes next,
  the document built afterwards is the document built before that call, one newline and
  \<open>f\<close>. So one newline and no blank line stands between such a title or header and the next
  fragment, and two newlines, a blank line, between a paragraph or a list that is not empty
  and the next fragment.
\<close>

theorem fragment_endings:
  "(\<not> ends_with_newline text \<longrightarrow>
      \<not> ends_with_newline (last (lines (snd (add_title text b)))) \<and>
      \<not> ends_with_newline (last (lines (snd (add_header text b)))) \<and>
      \<not> ends_with_newline (fst (build (snd (add_title text b)))) \<and>
      \<not> ends_with_newline (fst (build (snd (add_header text b))))) \<and>
   ends_with_newline (last (lines (snd (add_paragraph text b)))) \<and>
   ends_with_newline (fst (build (snd (add_paragraph text b)))) \<and>
   (list_of_points \<noteq> [] \<longrightarrow>
      ends_with_newline (last (lines (snd (add_list list_of_points b)))) \<and>
      ends_with_newline (fst (build (snd (add_list list_of_points b))))) \<and>
   (fragments next_call = [f] \<longrightarrow>
      fst (build (perform next_call (snd (add_title text b)))) =
        fst (build (snd (add_title text b))) @ NL @ f \<and>
      fst (build (perform next_call (snd (add_header text b)))) =
        fst (build (snd (add_header text b))) @ NL @ f \<and>
      fst (build (perform next_call (snd (add_paragraph text b)))) =
        fst (build (snd (add_paragraph text b))) @ NL @ f \<and>
      fst (build (perform next_call (snd (add_list list_of_points b)))) =
        fst (build (snd (add_list list_of_points b))) @ NL @ f)"
proof -
  have headings: "\<not> ends_with_newline (last (lines (snd (add_title text b)))) \<and>
      \<not> ends_with_newline (last (lines (snd (add_header text b)))) \<and>
      \<not> ends_with_newline (fst (build (snd (add_title text b)))) \<and>
      \<not> ends_with_newline (fst (build (snd (add_header text b))))"
    if "\<not> ends_with_newline text"
  proof -
    have "\<not> ends_with_newline (''# '' @ text)" and "\<not> ends_with_newline (''## '' @ text)"
      using that by (simp_all add: ends_with_newline_Cons not_ends_with_newline_Nil NL_def)
    then show ?thesis
      by (simp add: add_title_def add_header_def build_def ends_with_newline_join_snoc)
  qed
  have paras: "ends_with_newline (last (lines (snd (add_paragraph text b)))) \<and>
      ends_with_newline (fst (build (snd (add_paragraph text b))))"
  proof -
    have "text @ NL \<noteq> []" and "ends_with_newline (text @ NL)"
      by (simp_all add: ends_with_newline_append ends_with_newline_NL) (simp_all add: NL_def)
    then show ?thesis
      by (simp add: add_paragraph_def build_def ends_with_newline_join_snoc)
  qed
  have bullets: "ends_with_newline (last (lines (snd (add_list list_of_points b)))) \<and>
      ends_with_newline (fst (build (snd (add_list list_of_points b))))"
    if "list_of_points \<noteq> []"
    using bullets_end [OF that]
    by (simp add: add_list_def build_def add_list_loop_concat ends_with_newline_join_snoc)
  have following: "fst (build (perform next_call (snd (add_title text b)))) =
        fst (build (snd (add_title text b))) @ NL @ f \<and>
      fst (build (perform next_call (snd (add_header text b)))) =
        fst (build (snd (add_header text b))) @ NL @ f \<and>
      fst (build (perform next_call (snd (add_paragraph text b)))) =
        fst (build (snd (add_paragraph text b))) @ NL @ f \<and>
      fst (build (perform next_call (snd (add_list list_of_points b)))) =
        fst (build (snd (add_list list_of_points b))) @ NL @ f"
    if "fragments next_call = [f]"
    using that
    by (simp add: build_then_perform add_title_def add_header_def add_paragraph_def
        add_list_def)
  show ?thesis
    using headings paras bullets following by blast
qed

text \<open>
  An instance: the text \<^verbatim>\<open>T\<close>, the list of \<^verbatim>\<open>a\<close> alone, a fresh builder, and the header
  \<^verbatim>\<open>H\<close> as the next call.
\<close>

theorem fragment_endings_witness:
  "\<not> ends_with_newline ''T'' \<and> [''a''] \<noteq> [] \<and>
   fragments (AddHeader ''H'') = [''## H''] \<and>
   \<not> ends_with_newline (last (lines (snd (add_title ''T'' MarkdownBlogPostBuilder)))) \<and>
   ends_with_newline (last (lines (snd (add_paragraph ''T'' MarkdownBlogPostBuilder)))) \<and>
   ends_with_newline (last (lines (snd (add_list [''a''] MarkdownBlogPostBuilder)))) \<and>
   fst (build (perform (AddHeader ''H'') (snd (add_title ''T'' MarkdownBlogPostBuilder)))) =
     ''# T\<newline>## H'' \<and>
   fst (build (perform (AddHeader ''H'') (snd (add_paragraph ''T'' MarkdownBlogPostBuilder)))) =
     ''T\<newline>\<newline>## H'' \<and>
   fst (build (perform (AddHeader ''H'') (snd (add_list [''a''] MarkdownBlogPostBuilder)))) =
     ''* a\<newline>\<newline>## H''"
  using fragment_endings [of "''T''" MarkdownBlogPostBuilder "[''a'']" "AddHeader ''H''"
      "''## H''"]
  by (simp add: scenario_defs ends_with_newline_def)

end
